theory Spec2Isabelle
  imports Main "HOL-Library.Word"
begin

section \<open>The JSON-RPC client of steembase/http\_client.py\<close>

text \<open>
  The development follows \<^verbatim>\<open>HttpClient\<close>: the request body built by
  \<^verbatim>\<open>json_rpc_body\<close>, the rotation over the nodes (\<^verbatim>\<open>next_node\<close>,
  \<^verbatim>\<open>set_node\<close>), the call \<^verbatim>\<open>exec\<close> with its fail-over, and the batch
  \<^verbatim>\<open>exec_multi_with_futures\<close>. What lies outside the file (the urllib3 pool, the
  JSON decoder, \<^verbatim>\<open>urlparse\<close>, the room on the interpreter's stack) enters as a
  parameter; every \<^verbatim>\<open>raise\<close> is a value of the error type.
\<close>

subsection \<open>Values\<close>

text \<open>
  The values \<^verbatim>\<open>json.loads\<close> returns and \<^verbatim>\<open>json.dumps\<close> accepts. An object
  is the list of its items in insertion order, with distinct keys; a float is its 64-bit
  pattern. Argument tuples are arrays.
\<close>

datatype json =
    JNull
  | JBool bool
  | JInt int
  | JFloat "64 word"
  | JStr string
  | JArr "json list"
  | JObj "(string \<times> json) list"

text \<open>
  An integer-valued object as the operator \<^verbatim>\<open>is\<close> sees it. CPython keeps one shared
  object for each integer from -5 to 256, and an integer literal in that range denotes the
  shared object (\<open>Shared\<close>, meant for that range). Every other integer-valued object has
  an identity of its own
  (\<open>Own\<close>): an int beyond the cached range, or an instance of a subclass of int such as
  \<^verbatim>\<open>http.HTTPStatus.OK\<close>, which equals 200 and is not the object of the literal.
\<close>

datatype pyint = Shared int | Own int

fun int_value :: "pyint \<Rightarrow> int" where
  "int_value (Shared n) = n"
| "int_value (Own n) = n"

definition literal_200 :: pyint where
  "literal_200 = Shared 200"

text \<open>\<^verbatim>\<open>x is not 200\<close>: \<open>x\<close> is another object than the one the literal denotes.\<close>

definition is_not_200 :: "pyint \<Rightarrow> bool" where
  "is_not_200 x = (x \<noteq> literal_200)"


text \<open>The part of urllib3's response that \<^verbatim>\<open>exec\<close> reads.\<close>

record response =
  status :: pyint
  data :: string

text \<open>
  What \<^verbatim>\<open>exec\<close> and the constructor can raise. \<open>Raised e\<close> is the exception object
  \<open>e\<close> that the transport raised, raised again by \<^verbatim>\<open>raise e\<close>; the transport's
  exceptions are instances of \<^verbatim>\<open>Exception\<close>, which is what the handler catches.
  \<^verbatim>\<open>SteemdBadResponse\<close> is built from the response in two places and from a message
  in one. \<^verbatim>\<open>ValueError\<close> is what \<^verbatim>\<open>urlparse\<close> raises on a URL it rejects,
  \<^verbatim>\<open>RecursionError\<close> what the interpreter raises at its recursion limit.
\<close>

datatype 'e error =
    Raised 'e
  | SteemdBadResponse_response response
  | SteemdBadResponse_message string
  | RPCError json
  | KeyError string
  | AttributeError
  | TypeError
  | ValueError
  | RecursionError
  | StopIteration

subsection \<open>Python's operators on decoded values\<close>

text \<open>\<^verbatim>\<open>sub in s\<close> on two strings: \<open>sub\<close> occurs in \<open>s\<close> as a contiguous part.\<close>

fun str_contains :: "string \<Rightarrow> string \<Rightarrow> bool" where
  "str_contains sub [] = (sub = [])"
| "str_contains sub (c # cs) = (take (length sub) (c # cs) = sub \<or> str_contains sub cs)"

text \<open>
  \<^verbatim>\<open>key in v\<close> for a string key: a key of a dict, an element of a list, a part of a
  string; any other value is not iterable and the test raises \<^verbatim>\<open>TypeError\<close>.
\<close>

fun py_in :: "string \<Rightarrow> json \<Rightarrow> 'e error + bool" where
  "py_in k (JObj kvs) = Inr (map_of kvs k \<noteq> None)"
| "py_in k (JArr xs) = Inr (List.member xs (JStr k))"
| "py_in k (JStr s) = Inr (str_contains k s)"
| "py_in k JNull = Inl TypeError"
| "py_in k (JBool b) = Inl TypeError"
| "py_in k (JInt n) = Inl TypeError"
| "py_in k (JFloat f) = Inl TypeError"

text \<open>
  \<^verbatim>\<open>v[key]\<close> for a string key: the value of a dict at the key, \<^verbatim>\<open>KeyError\<close>
  when it has none; \<^verbatim>\<open>TypeError\<close> on every other value (a list and a string take
  integer indices, the rest takes none).
\<close>

fun py_getitem :: "json \<Rightarrow> string \<Rightarrow> 'e error + json" where
  "py_getitem (JObj kvs) k = (case map_of kvs k of None \<Rightarrow> Inl (KeyError k) | Some v \<Rightarrow> Inr v)"
| "py_getitem (JArr xs) k = Inl TypeError"
| "py_getitem (JStr s) k = Inl TypeError"
| "py_getitem JNull k = Inl TypeError"
| "py_getitem (JBool b) k = Inl TypeError"
| "py_getitem (JInt n) k = Inl TypeError"
| "py_getitem (JFloat f) k = Inl TypeError"

text \<open>
  \<^verbatim>\<open>error.get('detail', response_json['error']['message'])\<close>, in Python's order of
  evaluation: the attribute \<^verbatim>\<open>error.get\<close> first (only a dict has it), then the
  arguments, so that the \<^verbatim>\<open>'message'\<close> item is read whether or not \<^verbatim>\<open>'detail'\<close>
  is there, and last the lookup with its default.
\<close>

fun error_get_detail :: "json \<Rightarrow> 'e error + json" where
  "error_get_detail (JObj kvs) =
     (case py_getitem (JObj kvs) ''message'' of
        Inl x \<Rightarrow> Inl x
      | Inr message \<Rightarrow>
          Inr (case map_of kvs ''detail'' of Some detail \<Rightarrow> detail | None \<Rightarrow> message))"
| "error_get_detail (JArr xs) = Inl AttributeError"
| "error_get_detail (JStr s) = Inl AttributeError"
| "error_get_detail JNull = Inl AttributeError"
| "error_get_detail (JBool b) = Inl AttributeError"
| "error_get_detail (JInt n) = Inl AttributeError"
| "error_get_detail (JFloat f) = Inl AttributeError"

subsection \<open>The request body\<close>

text \<open>
  \<^verbatim>\<open>json_rpc_body\<close> returns the dictionary, or with \<^verbatim>\<open>as_json\<close> the UTF-8 bytes
  of its \<^verbatim>\<open>json.dumps\<close> text. The bytes are kept as the dictionary they were made
  from. (Two dictionaries that differ only in the bits of a NaN have the same bytes; no
  statement below compares bodies that hold floats.)
\<close>

datatype body = Utf8_json json | Dict json

text \<open>
  The dictionary \<^verbatim>\<open>body_dict\<close>, its items in insertion order. The test
  \<^verbatim>\<open>if api:\<close> is Python's truth test: \<^verbatim>\<open>None\<close> fails it, and so does the
  empty string.
\<close>

definition headers :: "int \<Rightarrow> (string \<times> json) list" where
  "headers id0 = [(''jsonrpc'', JStr ''2.0''), (''id'', JInt id0)]"

fun body_dict :: "string \<Rightarrow> json list \<Rightarrow> string option \<Rightarrow> int \<Rightarrow> json" where
  "body_dict name args (Some api) id0 =
     (if api \<noteq> []
      then JObj (headers id0 @
             [(''method'', JStr ''call''), (''params'', JArr [JStr api, JStr name, JArr args])])
      else JObj (headers id0 @ [(''method'', JStr name), (''params'', JArr args)]))"
| "body_dict name args None id0 =
     JObj (headers id0 @ [(''method'', JStr name), (''params'', JArr args)])"

definition json_rpc_body :: "string \<Rightarrow> json list \<Rightarrow> string option \<Rightarrow> bool \<Rightarrow> int \<Rightarrow> body" where
  "json_rpc_body name args api as_json id0 =
     (if as_json then Utf8_json (body_dict name args api id0)
      else Dict (body_dict name args api id0))"

text \<open>The dictionary that a body is, or that its bytes serialise.\<close>

fun envelope :: "body \<Rightarrow> json" where
  "envelope (Utf8_json j) = j"
| "envelope (Dict j) = j"

subsection \<open>The client and the rotation of its nodes\<close>

text \<open>
  \<^verbatim>\<open>itertools.cycle(nodes)\<close>: the saved items and how many have been drawn. The
  item drawn after \<open>k\<close> others is the one at \<open>k mod n\<close>; on no items \<^verbatim>\<open>next\<close>
  raises \<^verbatim>\<open>StopIteration\<close>.
\<close>

datatype cycle = Cycle (saved: "string list") (drawn: nat)

fun cycle_next :: "cycle \<Rightarrow> (string \<times> cycle) option" where
  "cycle_next (Cycle xs k) =
     (if xs = [] then None else Some (xs ! (k mod length xs), Cycle xs (Suc k)))"

text \<open>
  The fields of \<^verbatim>\<open>HttpClient\<close> that its methods read or write. \<open>request\<close> is the
  URL that \<^verbatim>\<open>partial(self.http.urlopen, 'POST', self.url)\<close> was bound to.
\<close>

record client =
  return_with_args :: bool
  max_workers :: "nat option"
  max_failovers :: int
  nodes :: cycle
  url :: string
  request :: string

definition set_node :: "client \<Rightarrow> string \<Rightarrow> client" where
  "set_node c node_url = c\<lparr>url := node_url, request := node_url\<rparr>"

text \<open>
  \<^verbatim>\<open>next_node\<close>; \<open>None\<close> when \<^verbatim>\<open>next(self.nodes)\<close> raises \<^verbatim>\<open>StopIteration\<close>,
  which leaves the client as it was.
\<close>

definition next_node :: "client \<Rightarrow> client option" where
  "next_node c =
     (case cycle_next (nodes c) of
        None \<Rightarrow> None
      | Some (node_url, it) \<Rightarrow> Some (set_node (c\<lparr>nodes := it\<rparr>) node_url))"

text \<open>The keyword arguments of the constructor that the client keeps.\<close>

record kwargs =
  kw_return_with_args :: "bool option"
  kw_max_workers :: "nat option"
  kw_max_failovers :: "int option"

text \<open>
  The constructor, \<open>None\<close> when its \<^verbatim>\<open>next_node\<close> raises \<^verbatim>\<open>StopIteration\<close> (on
  an empty list of nodes). Before that first \<^verbatim>\<open>next_node\<close> the URL is the empty
  string and \<^verbatim>\<open>self.request\<close> is unbound.
\<close>

definition init :: "string list \<Rightarrow> kwargs \<Rightarrow> client option" where
  "init nodes0 kw =
     next_node
       \<lparr>return_with_args = (case kw_return_with_args kw of None \<Rightarrow> False | Some b \<Rightarrow> b),
        max_workers = kw_max_workers kw,
        max_failovers = (case kw_max_failovers kw of None \<Rightarrow> 10 | Some k \<Rightarrow> k),
        nodes = Cycle nodes0 0,
        url = '''',
        request = ''''\<rparr>"

text \<open>\<open>n\<close> calls of \<^verbatim>\<open>next_node\<close> in a row.\<close>

fun rotations :: "nat \<Rightarrow> client \<Rightarrow> client option" where
  "rotations 0 c = Some c"
| "rotations (Suc n) c = (case next_node c of None \<Rightarrow> None | Some c' \<Rightarrow> rotations n c')"

subsection \<open>The call\<close>

text \<open>
  Where a fail-over can meet the interpreter's recursion limit. Every fail-over nests two
  frames deeper (\<^verbatim>\<open>failover\<close>, then \<^verbatim>\<open>exec\<close>), on top of the frames of the caller
  and of the library calls made on the way, so that the call which finds no room, and
  with it the state the client is left in, depends on depths that are not in this file.
  The points, in the order the code passes them after the test of the budget:
  \<^item> \<open>In_log_line\<close>: in the log line of the handler, before the host name is parsed;
  \<^item> \<open>In_failover\<close>: after that, up to the call of \<^verbatim>\<open>self.next_node()\<close> (the rest of
    the logging call, the frame of \<^verbatim>\<open>failover\<close>, the frame of \<^verbatim>\<open>next_node\<close>);
  \<^item> \<open>In_set_node\<close>: in \<^verbatim>\<open>set_node\<close> before its assignments (its frame, its log line),
    when \<^verbatim>\<open>next(self.nodes)\<close> has already drawn a node;
  \<^item> \<open>On_reentry\<close>: on entering \<^verbatim>\<open>exec\<close> again, before it sends a request.
\<close>

datatype overflow = In_log_line | In_failover | In_set_node | On_reentry

text \<open>
  The world outside the client. \<open>urlopen i u b\<close> is what the pool's
  \<^verbatim>\<open>urlopen('POST', u, body=b)\<close> does when \<open>i\<close> requests went out before it: it
  raises, or it returns a response. \<open>json_loads d\<close> is
  \<^verbatim>\<open>json.loads(d.decode('utf-8'))\<close>, \<open>None\<close> when that raises.
  \<open>urlparse_rejects u\<close> holds when \<^verbatim>\<open>urlparse(u)\<close> raises \<^verbatim>\<open>ValueError\<close>.
  \<open>overflow i\<close> says whether the fail-over that follows request number \<open>i\<close> (counted
  from 0) meets the recursion limit, and where. The first attempt of a call is taken to
  find room on the stack.
\<close>

datatype 'e outcome = Raises 'e | Returns response

record 'e world =
  urlopen :: "nat \<Rightarrow> string \<Rightarrow> body \<Rightarrow> 'e outcome"
  json_loads :: "string \<Rightarrow> json option"
  urlparse_rejects :: "string \<Rightarrow> bool"
  overflow :: "nat \<Rightarrow> overflow option"

text \<open>What \<^verbatim>\<open>exec\<close> returns: the result, or the pair of the result and \<^verbatim>\<open>args\<close>.\<close>

datatype result = Plain json | With_args json "json list"

text \<open>\<^verbatim>\<open>if return_with_args:\<close> on \<^verbatim>\<open>None\<close>, \<^verbatim>\<open>False\<close> or \<^verbatim>\<open>True\<close>.\<close>

fun flag_set :: "bool option \<Rightarrow> bool" where
  "flag_set None = False"
| "flag_set (Some b) = b"

text \<open>The message of the \<^verbatim>\<open>SteemdBadResponse\<close> raised for a body without a result.\<close>

definition missing_result :: string where
  \<open>missing_result = ''The response is missing a "result".''\<close>

text \<open>
  The property \<^verbatim>\<open>hostname\<close>, \<^verbatim>\<open>urlparse(self.url).hostname\<close>: it raises where
  \<^verbatim>\<open>urlparse\<close> does. The name itself only goes into a log line and is not kept.
\<close>

definition hostname :: "'e world \<Rightarrow> client \<Rightarrow> 'e error option" where
  "hostname w c = (if urlparse_rejects w (url c) then Some ValueError else None)"

text \<open>
  The log line that precedes \<^verbatim>\<open>return failover()\<close>, as far as it can raise; \<open>None\<close>
  when it does not. The lines of the two handlers for a transport exception and for a bad
  status format \<^verbatim>\<open>self.hostname\<close> (\<open>names_host\<close>); the lines for a malformed body
  and for an RPC error do not.
\<close>

definition log_line :: "'e world \<Rightarrow> client \<Rightarrow> nat \<Rightarrow> bool \<Rightarrow> 'e error option" where
  "log_line w c i names_host =
     (if overflow w i = Some In_log_line then Some RecursionError
      else if names_host then hostname w c
      else None)"

text \<open>
  The inner \<^verbatim>\<open>failover\<close> up to its call of \<^verbatim>\<open>self.exec\<close>: \<^verbatim>\<open>self.next_node()\<close>,
  with the points at which the recursion limit can end it. The result is the client to
  call \<^verbatim>\<open>exec\<close> on, or the error raised and the client it leaves.
\<close>

definition failover :: "'e world \<Rightarrow> client \<Rightarrow> nat \<Rightarrow> ('e error \<times> client) + client" where
  "failover w c i =
     (if overflow w i = Some In_failover then Inl (RecursionError, c)
      else if overflow w i = Some In_set_node then
        (case cycle_next (nodes c) of
           None \<Rightarrow> Inl (StopIteration, c)
         | Some (node_url, it) \<Rightarrow> Inl (RecursionError, c\<lparr>nodes := it\<rparr>))
      else
        (case next_node c of
           None \<Rightarrow> Inl (StopIteration, c)
         | Some c' \<Rightarrow>
             if overflow w i = Some On_reentry then Inl (RecursionError, c') else Inr c'))"

lemma next_node_max_failovers:
  "next_node c = Some c' \<Longrightarrow> max_failovers c' = max_failovers c"
  by (cases "nodes c") (auto simp: next_node_def set_node_def split: if_splits)

lemma failover_max_failovers:
  "failover w c i = Inr c' \<Longrightarrow> max_failovers c' = max_failovers c"
  by (auto simp: failover_def next_node_max_failovers split: if_splits option.splits)

text \<open>
  \<^verbatim>\<open>exec\<close>. The state is the client and the requests sent so far (the URL and the
  body of each, oldest first); the result comes with the state the call leaves. Each of
  the four handlers that retry tests the budget, writes its log line and returns
  \<^verbatim>\<open>failover()\<close>, which after \<^verbatim>\<open>next_node\<close> calls \<^verbatim>\<open>exec\<close> again with
  \<^verbatim>\<open>name\<close>, \<^verbatim>\<open>args\<close>, \<^verbatim>\<open>return_with_args\<close> and \<^verbatim>\<open>_ret_cnt + 1\<close>;
  \<^verbatim>\<open>api\<close> is not among the arguments it passes, so the call it makes runs with the
  default \<^verbatim>\<open>api=None\<close>. The budget \<^verbatim>\<open>max_failovers\<close> and the counter are
  integers. Of logging only what can end the call is kept.
\<close>

function exec ::
  "'e world \<Rightarrow> client \<Rightarrow> (string \<times> body) list \<Rightarrow> string \<Rightarrow> json list \<Rightarrow> string option \<Rightarrow>
   bool option \<Rightarrow> int \<Rightarrow> ('e error + result) \<times> client \<times> (string \<times> body) list" where
  "exec w c sent name args api with_args ret_cnt =
     (let body = json_rpc_body name args api True 0;
          sent' = sent @ [(request c, body)]
      in case urlopen w (length sent) (request c) body of
           Raises e \<Rightarrow>
             if ret_cnt \<ge> max_failovers c then (Inl (Raised e), c, sent')
             else (case log_line w c (length sent) True of
                     Some x \<Rightarrow> (Inl x, c, sent')
                   | None \<Rightarrow>
                       (case failover w c (length sent) of
                          Inl (x, c1) \<Rightarrow> (Inl x, c1, sent')
                        | Inr c' \<Rightarrow> exec w c' sent' name args None with_args (ret_cnt + 1)))
         | Returns response \<Rightarrow>
             if is_not_200 (status response) then
               if ret_cnt \<ge> max_failovers c
               then (Inl (SteemdBadResponse_response response), c, sent')
               else (case log_line w c (length sent) True of
                       Some x \<Rightarrow> (Inl x, c, sent')
                     | None \<Rightarrow>
                         (case failover w c (length sent) of
                            Inl (x, c1) \<Rightarrow> (Inl x, c1, sent')
                          | Inr c' \<Rightarrow> exec w c' sent' name args None with_args (ret_cnt + 1)))
             else
               (case json_loads w (data response) of
                  None \<Rightarrow>
                    if ret_cnt \<ge> max_failovers c
                    then (Inl (SteemdBadResponse_response response), c, sent')
                    else (case log_line w c (length sent) False of
                            Some x \<Rightarrow> (Inl x, c, sent')
                          | None \<Rightarrow>
                              (case failover w c (length sent) of
                                 Inl (x, c1) \<Rightarrow> (Inl x, c1, sent')
                               | Inr c' \<Rightarrow>
                                   exec w c' sent' name args None with_args (ret_cnt + 1)))
                | Some response_json \<Rightarrow>
                    (case py_in ''error'' response_json of
                       Inl x \<Rightarrow> (Inl x, c, sent')
                     | Inr True \<Rightarrow>
                         (case py_getitem response_json ''error'' of
                            Inl x \<Rightarrow> (Inl x, c, sent')
                          | Inr error \<Rightarrow>
                              (case error_get_detail error of
                                 Inl x \<Rightarrow> (Inl x, c, sent')
                               | Inr error_message \<Rightarrow>
                                   if ret_cnt \<ge> max_failovers c
                                   then (Inl (RPCError error_message), c, sent')
                                   else (case log_line w c (length sent) False of
                                           Some x \<Rightarrow> (Inl x, c, sent')
                                         | None \<Rightarrow>
                                             (case failover w c (length sent) of
                                                Inl (x, c1) \<Rightarrow> (Inl x, c1, sent')
                                              | Inr c' \<Rightarrow>
                                                  exec w c' sent' name args None with_args
                                                    (ret_cnt + 1)))))
                     | Inr False \<Rightarrow>
                         (case py_in ''result'' response_json of
                            Inl x \<Rightarrow> (Inl x, c, sent')
                          | Inr False \<Rightarrow>
                              (Inl (SteemdBadResponse_message missing_result), c, sent')
                          | Inr True \<Rightarrow>
                              (case py_getitem response_json ''result'' of
                                 Inl x \<Rightarrow> (Inl x, c, sent')
                               | Inr r \<Rightarrow>
                                   (Inr (if flag_set with_args then With_args r args
                                         else Plain r), c, sent'))))))"
  by pat_completeness auto
termination
  by (relation "measure (\<lambda>(w, c, sent, name, args, api, with_args, ret_cnt).
                  nat (max_failovers c - ret_cnt))")
     (auto simp: failover_max_failovers)

declare exec.simps [simp del]

subsection \<open>One attempt\<close>

text \<open>
  What one pass through the body of \<^verbatim>\<open>exec\<close> finds, apart from the test of the budget
  and the fail-over: either the call is over (\<open>Done\<close>: a value returned, or an error raised
  at once), or the pass met one of the four conditions that are retried (\<open>Retry\<close>), with
  the error to raise once the budget is used up and whether the log line of that handler
  names the host. It is used to reason about \<open>exec\<close>, which is shown to be this
  classification followed by the budget test.
\<close>

datatype 'e verdict = Done "'e error + result" | Retry bool "'e error"

definition attempt ::
  "'e world \<Rightarrow> client \<Rightarrow> nat \<Rightarrow> string \<Rightarrow> json list \<Rightarrow> string option \<Rightarrow> bool option \<Rightarrow> 'e verdict" where
  "attempt w c i name args api with_args =
     (case urlopen w i (request c) (json_rpc_body name args api True 0) of
        Raises e \<Rightarrow> Retry True (Raised e)
      | Returns response \<Rightarrow>
          if is_not_200 (status response)
          then Retry True (SteemdBadResponse_response response)
          else
            (case json_loads w (data response) of
               None \<Rightarrow> Retry False (SteemdBadResponse_response response)
             | Some response_json \<Rightarrow>
                 (case py_in ''error'' response_json of
                    Inl x \<Rightarrow> Done (Inl x)
                  | Inr True \<Rightarrow>
                      (case py_getitem response_json ''error'' of
                         Inl x \<Rightarrow> Done (Inl x)
                       | Inr error \<Rightarrow>
                           (case error_get_detail error of
                              Inl x \<Rightarrow> Done (Inl x)
                            | Inr error_message \<Rightarrow> Retry False (RPCError error_message)))
                  | Inr False \<Rightarrow>
                      (case py_in ''result'' response_json of
                         Inl x \<Rightarrow> Done (Inl x)
                       | Inr False \<Rightarrow> Done (Inl (SteemdBadResponse_message missing_result))
                       | Inr True \<Rightarrow>
                           (case py_getitem response_json ''result'' of
                              Inl x \<Rightarrow> Done (Inl x)
                            | Inr r \<Rightarrow>
                                Done (Inr (if flag_set with_args then With_args r args
                                           else Plain r)))))))"

subsection \<open>The batch\<close>

text \<open>\<^verbatim>\<open>ensure_list\<close>: a list, tuple or set is taken as it is, anything else is wrapped.\<close>

fun ensure_list :: "json \<Rightarrow> json list" where
  "ensure_list (JArr xs) = xs"
| "ensure_list JNull = [JNull]"
| "ensure_list (JBool b) = [JBool b]"
| "ensure_list (JInt n) = [JInt n]"
| "ensure_list (JFloat f) = [JFloat f]"
| "ensure_list (JStr s) = [JStr s]"
| "ensure_list (JObj kvs) = [JObj kvs]"

text \<open>
  The calls that \<^verbatim>\<open>exec_multi_with_futures\<close> submits, in the runs where the pool works
  through them one at a time in the order of submission (as a pool of one worker does).
  Each parameter set is submitted as \<^verbatim>\<open>self.exec(name, *ensure_list(param), api=api)\<close>:
  no \<^verbatim>\<open>return_with_args\<close> is passed and each call starts at \<^verbatim>\<open>_ret_cnt=0\<close>.
  Every submitted call runs, also after one has raised: leaving the \<^verbatim>\<open>with\<close> block
  waits for all of them. The list holds what each call returned or raised. Runs in which
  calls overlap are outside this model.
\<close>

fun submitted ::
  "'e world \<Rightarrow> client \<Rightarrow> (string \<times> body) list \<Rightarrow> string \<Rightarrow> json list \<Rightarrow> string option \<Rightarrow>
   ('e error + result) list \<times> client \<times> (string \<times> body) list" where
  "submitted w c sent name [] api = ([], c, sent)"
| "submitted w c sent name (param # params) api =
     (case exec w c sent name (ensure_list param) api None 0 of
        (r, c', sent') \<Rightarrow>
          (case submitted w c' sent' name params api of
             (rs, c'', sent'') \<Rightarrow> (r # rs, c'', sent'')))"

text \<open>
  What the generator hands out: the results up to the first call whose
  \<^verbatim>\<open>future.result()\<close> raises, and that exception, which ends it.
\<close>

fun handed_out :: "('e error + result) list \<Rightarrow> ('e error + result) list" where
  "handed_out [] = []"
| "handed_out (Inr r # rs) = Inr r # handed_out rs"
| "handed_out (Inl x # rs) = [Inl x]"

text \<open>
  \<^verbatim>\<open>exec_multi_with_futures\<close> in those runs, its results in the order the calls ran
  (the generator's order is that of completion). \<^verbatim>\<open>max_workers\<close> only sizes the pool.
\<close>

definition exec_multi_with_futures ::
  "'e world \<Rightarrow> client \<Rightarrow> (string \<times> body) list \<Rightarrow> string \<Rightarrow> json list \<Rightarrow> string option \<Rightarrow>
   nat option \<Rightarrow> ('e error + result) list \<times> client \<times> (string \<times> body) list" where
  "exec_multi_with_futures w c sent name params api workers =
     (case submitted w c sent name params api of
        (rs, c', sent') \<Rightarrow> (handed_out rs, c', sent'))"

subsection \<open>States the constructor and the rotation reach\<close>

text \<open>
  After the constructor and after every \<^verbatim>\<open>next_node\<close> the active URL is the item
  drawn last from the cycle, and \<^verbatim>\<open>self.request\<close> is bound to it.
\<close>

definition active_is_last_drawn :: "client \<Rightarrow> bool" where
  "active_is_last_drawn c =
     (saved (nodes c) \<noteq> [] \<and> 0 < drawn (nodes c) \<and>
      url c = saved (nodes c) ! ((drawn (nodes c) - 1) mod length (saved (nodes c))) \<and>
      request c = url c)"

subsection \<open>Concrete worlds\<close>

text \<open>The constructor called with the node list alone.\<close>

definition no_kwargs :: kwargs where
  "no_kwargs = \<lparr>kw_return_with_args = None, kw_max_workers = None, kw_max_failovers = None\<rparr>"

text \<open>
  Three response bodies and what \<^verbatim>\<open>json.loads\<close> makes of them; every other text
  stands for a body that does not decode.
\<close>

definition with_result :: string where
  \<open>with_result = ''{"id": 0, "result": 1}''\<close>

definition without_result :: string where
  \<open>without_result = ''{"id": 0}''\<close>

definition error_without_message :: string where
  \<open>error_without_message = ''{"id": 0, "error": {"code": 7}}''\<close>

definition loads :: "string \<Rightarrow> json option" where
  "loads d =
     (if d = with_result then Some (JObj [(''id'', JInt 0), (''result'', JInt 1)])
      else if d = without_result then Some (JObj [(''id'', JInt 0)])
      else if d = error_without_message
      then Some (JObj [(''id'', JInt 0), (''error'', JObj [(''code'', JInt 7)])])
      else None)"

text \<open>
  Of the URLs below, \<^verbatim>\<open>urlparse\<close> rejects the one with an unclosed bracket
  (\<^verbatim>\<open>ValueError: Invalid IPv6 URL\<close>).
\<close>

definition rejects :: "string \<Rightarrow> bool" where
  "rejects u = (u = ''http://[bad'')"

text \<open>A stack with room for every fail-over.\<close>

definition room :: "nat \<Rightarrow> overflow option" where
  "room i = None"

text \<open>Nodes that answer every request with the given status and body.\<close>

definition answers :: "pyint \<Rightarrow> string \<Rightarrow> unit world" where
  "answers s d =
     \<lparr>urlopen = (\<lambda>i u b. Returns \<lparr>status = s, data = d\<rparr>), json_loads = loads,
      urlparse_rejects = rejects, overflow = room\<rparr>"

text \<open>
  The first request meets a connection error, every later one is answered with status
  200 (the cached int) and a result.
\<close>

definition first_fails :: "unit world" where
  "first_fails =
     \<lparr>urlopen = (\<lambda>i u b. if i = 0 then Raises ()
                          else Returns \<lparr>status = Shared 200, data = with_result\<rparr>),
      json_loads = loads, urlparse_rejects = rejects, overflow = room\<rparr>"

text \<open>Every request raises; the exception of request \<open>i\<close> is \<open>i\<close>.\<close>

definition always_raises :: "nat world" where
  "always_raises =
     \<lparr>urlopen = (\<lambda>i u b. Raises i), json_loads = loads, urlparse_rejects = rejects,
      overflow = room\<rparr>"

text \<open>
  The same on a stack that the fail-over after the second request outgrows, inside
  \<^verbatim>\<open>set_node\<close>.
\<close>

definition shallow_stack :: "nat world" where
  "shallow_stack = always_raises\<lparr>overflow := (\<lambda>i. if i = 1 then Some In_set_node else None)\<rparr>"

text \<open>
  The client that \<^verbatim>\<open>HttpClient(['https://a', 'https://b', 'https://c'], max_failovers=2)\<close>
  builds.
\<close>

definition three_nodes :: client where
  "three_nodes =
     \<lparr>return_with_args = False, max_workers = None, max_failovers = 2,
      nodes = Cycle [''https://a'', ''https://b'', ''https://c''] 1,
      url = ''https://a'', request = ''https://a''\<rparr>"

section \<open>Properties\<close>

subsection \<open>The rotation\<close>

lemma next_node_saved:
  "next_node c = Some c' \<Longrightarrow> saved (nodes c') = saved (nodes c)"
  by (cases "nodes c") (auto simp: next_node_def set_node_def split: if_splits)

lemma next_node_drawn:
  "next_node c = Some c' \<Longrightarrow> drawn (nodes c') = Suc (drawn (nodes c))"
  by (cases "nodes c") (auto simp: next_node_def set_node_def split: if_splits)

lemma next_node_total:
  "saved (nodes c) \<noteq> [] \<Longrightarrow> \<exists>c'. next_node c = Some c'"
  by (cases "nodes c") (auto simp: next_node_def set_node_def)

lemma next_node_None:
  "next_node c = None \<Longrightarrow> saved (nodes c) = []"
  by (cases "nodes c") (auto simp: next_node_def set_node_def split: if_splits)

lemma next_node_active:
  "next_node c = Some c' \<Longrightarrow> active_is_last_drawn c'"
  by (cases "nodes c")
    (auto simp: next_node_def set_node_def active_is_last_drawn_def split: if_splits)

lemma init_active:
  "init ns kw = Some c \<Longrightarrow> active_is_last_drawn c \<and> saved (nodes c) = ns \<and> ns \<noteq> []"
  by (auto simp: init_def next_node_def set_node_def active_is_last_drawn_def split: if_splits)

lemma rotations_total:
  "saved (nodes c) \<noteq> [] \<Longrightarrow>
   \<exists>c'. rotations n c = Some c' \<and> saved (nodes c') = saved (nodes c) \<and>
        drawn (nodes c') = drawn (nodes c) + n \<and> max_failovers c' = max_failovers c"
proof (induction n arbitrary: c)
  case 0
  then show ?case by simp
next
  case (Suc n)
  from next_node_total [OF Suc.prems] obtain c1 where c1: "next_node c = Some c1" ..
  have "saved (nodes c1) \<noteq> []" using next_node_saved [OF c1] Suc.prems by simp
  from Suc.IH [OF this] obtain c' where
    "rotations n c1 = Some c'" "saved (nodes c') = saved (nodes c1)"
    "drawn (nodes c') = drawn (nodes c1) + n" "max_failovers c' = max_failovers c1"
    by blast
  then show ?case
    using c1 next_node_saved [OF c1] next_node_drawn [OF c1] next_node_max_failovers [OF c1]
    by simp
qed

lemma rotations_active:
  "active_is_last_drawn c \<Longrightarrow> rotations n c = Some c' \<Longrightarrow> active_is_last_drawn c'"
proof (induction n arbitrary: c)
  case 0
  then show ?case by simp
next
  case (Suc n)
  then show ?case
    by (cases "next_node c") (auto dest: next_node_active)
qed

lemma active_url:
  "active_is_last_drawn c \<Longrightarrow>
   url c = saved (nodes c) ! ((drawn (nodes c) - 1) mod length (saved (nodes c)))"
  by (simp add: active_is_last_drawn_def)

lemma full_turn:
  assumes "active_is_last_drawn c"
  shows "\<exists>c'. rotations (length (saved (nodes c))) c = Some c' \<and> url c' = url c \<and>
           request c' = request c"
proof -
  let ?xs = "saved (nodes c)"
  from assms have ne: "?xs \<noteq> []" and pos: "0 < drawn (nodes c)"
    by (simp_all add: active_is_last_drawn_def)
  from rotations_total [OF ne, of "length ?xs"] obtain c' where
    r: "rotations (length ?xs) c = Some c'" and s: "saved (nodes c') = ?xs"
    and d: "drawn (nodes c') = drawn (nodes c) + length ?xs"
    by blast
  have a': "active_is_last_drawn c'" using rotations_active [OF assms r] .
  have "(drawn (nodes c) + length ?xs - 1) mod length ?xs = (drawn (nodes c) - 1) mod length ?xs"
    using pos by (metis Nat.add_diff_assoc2 Suc_leI mod_add_self2 One_nat_def)
  then have "url c' = url c"
    using active_url [OF a'] active_url [OF assms] s d by simp
  moreover have "request c' = request c"
    using a' assms \<open>url c' = url c\<close> by (simp add: active_is_last_drawn_def)
  ultimately show ?thesis using r by blast
qed

lemma active_url_in_nodes:
  "active_is_last_drawn c \<Longrightarrow> url c \<in> set (saved (nodes c))"
  by (simp add: active_is_last_drawn_def)

subsection \<open>The call as a classification followed by the budget test\<close>

lemma exec_attempt:
  fixes w :: "'e world"
  shows "exec w c sent name args api with_args ret_cnt =
     (case attempt w c (length sent) name args api with_args of
        Done r \<Rightarrow> (r, c, sent @ [(request c, json_rpc_body name args api True 0)])
      | Retry names_host x \<Rightarrow>
          if ret_cnt \<ge> max_failovers c
          then (Inl x, c, sent @ [(request c, json_rpc_body name args api True 0)])
          else (case log_line w c (length sent) names_host of
                  Some y \<Rightarrow>
                    (Inl y, c, sent @ [(request c, json_rpc_body name args api True 0)])
                | None \<Rightarrow>
                    (case failover w c (length sent) of
                       Inl (y, c1) \<Rightarrow>
                         (Inl y, c1, sent @ [(request c, json_rpc_body name args api True 0)])
                     | Inr c' \<Rightarrow>
                         exec w c' (sent @ [(request c, json_rpc_body name args api True 0)])
                           name args None with_args (ret_cnt + 1))))"
proof (cases "urlopen w (length sent) (request c) (json_rpc_body name args api True 0)")
  case (Raises e)
  then show ?thesis
    by (subst exec.simps) (simp add: attempt_def Let_def)
next
  case (Returns r)
  show ?thesis
  proof (cases "is_not_200 (status r)")
    case True
    with Returns show ?thesis
      by (subst exec.simps) (simp add: attempt_def Let_def)
  next
    case ok: False
    show ?thesis
    proof (cases "json_loads w (data r)")
      case None
      with Returns ok show ?thesis
        by (subst exec.simps) (simp add: attempt_def Let_def)
    next
      case (Some j)
      show ?thesis
      proof (cases "py_in ''error'' j :: 'e error + bool")
        case (Inl x)
        with Returns ok Some show ?thesis
          by (subst exec.simps) (simp add: attempt_def Let_def)
      next
        case (Inr has_error)
        show ?thesis
        proof (cases has_error)
          case True
          show ?thesis
          proof (cases "py_getitem j ''error'' :: 'e error + json")
            case (Inl x)
            with Returns ok Some Inr True show ?thesis
              by (subst exec.simps) (simp add: attempt_def Let_def)
          next
            case err: (Inr v)
            show ?thesis
            proof (cases "error_get_detail v :: 'e error + json")
              case (Inl x)
              with Returns ok Some Inr True err show ?thesis
                by (subst exec.simps) (simp add: attempt_def Let_def)
            next
              case msg: (Inr m)
              with Returns ok Some Inr True err show ?thesis
                by (subst exec.simps) (simp add: attempt_def Let_def)
            qed
          qed
        next
          case no_error: False
          show ?thesis
          proof (cases "py_in ''result'' j :: 'e error + bool")
            case (Inl x)
            with Returns ok Some Inr no_error show ?thesis
              by (subst exec.simps) (simp add: attempt_def Let_def)
          next
            case res: (Inr has_result)
            show ?thesis
            proof (cases has_result)
              case False
              with Returns ok Some Inr no_error res show ?thesis
                by (subst exec.simps) (simp add: attempt_def Let_def)
            next
              case True
              with Returns ok Some Inr no_error res show ?thesis
                by (subst exec.simps) (simp add: attempt_def Let_def split: sum.split)
            qed
          qed
        qed
      qed
    qed
  qed
qed

lemma attempt_raises:
  "urlopen w i (request c) (json_rpc_body name args api True 0) = Raises e \<Longrightarrow>
   attempt w c i name args api with_args = Retry True (Raised e)"
  by (simp add: attempt_def)

lemma failover_room:
  "overflow w i = None \<Longrightarrow>
   failover w c i = (case next_node c of None \<Rightarrow> Inl (StopIteration, c) | Some c' \<Rightarrow> Inr c')"
  by (simp add: failover_def split: option.split)

lemma log_line_room:
  "overflow w i = None \<Longrightarrow> \<not> urlparse_rejects w (url c) \<Longrightarrow> log_line w c i names_host = None"
  by (simp add: log_line_def hostname_def)

lemma is_not_200_Shared:
  "is_not_200 (Shared n) = (n \<noteq> 200)"
  by (simp add: is_not_200_def literal_200_def)

lemma is_not_200_Own:
  "is_not_200 (Own n)"
  by (simp add: is_not_200_def literal_200_def)

lemma init_three_nodes:
  "init [''https://a'', ''https://b'', ''https://c''] (no_kwargs\<lparr>kw_max_failovers := Some 2\<rparr>) =
   Some three_nodes"
  by (simp add: init_def next_node_def set_node_def no_kwargs_def three_nodes_def)

lemmas example_defs =
  init_def next_node_def set_node_def no_kwargs_def three_nodes_def first_fails_def
  answers_def always_raises_def shallow_stack_def loads_def with_result_def
  without_result_def error_without_message_def attempt_def json_rpc_body_def headers_def
  is_not_200_def literal_200_def missing_result_def active_is_last_drawn_def
  log_line_def hostname_def failover_def rejects_def room_def

subsection \<open>The request body\<close>

text \<open>
  C6, as the code has it. For every method name, argument sequence, correlation id and
  output form: when the namespace is a non-empty string, the envelope has the method
  \<open>call\<close> and the params \<open>[namespace, name, args]\<close>; when the namespace is absent or
  is the empty string, the envelope has the given name as its method and the arguments as
  its params.
\<close>

theorem json_rpc_body_envelope:
  "(api = Some ns \<and> ns \<noteq> [] \<longrightarrow>
      envelope (json_rpc_body name args api as_json id0) =
        JObj [(''jsonrpc'', JStr ''2.0''), (''id'', JInt id0), (''method'', JStr ''call''),
              (''params'', JArr [JStr ns, JStr name, JArr args])]) \<and>
   (api = None \<or> api = Some [] \<longrightarrow>
      envelope (json_rpc_body name args api as_json id0) =
        JObj [(''jsonrpc'', JStr ''2.0''), (''id'', JInt id0), (''method'', JStr name),
              (''params'', JArr args)])"
  by (cases api) (auto simp: json_rpc_body_def headers_def)

theorem json_rpc_body_envelope_witness:
  "envelope (json_rpc_body ''get_followers'' [JStr ''furion''] (Some ''follow_api'') True 0) =
     JObj [(''jsonrpc'', JStr ''2.0''), (''id'', JInt 0), (''method'', JStr ''call''),
           (''params'', JArr [JStr ''follow_api'', JStr ''get_followers'', JArr [JStr ''furion'']])] \<and>
   envelope (json_rpc_body ''get_accounts'' [JArr [JStr ''furion'']] None False 3) =
     JObj [(''jsonrpc'', JStr ''2.0''), (''id'', JInt 3), (''method'', JStr ''get_accounts''),
           (''params'', JArr [JArr [JStr ''furion'']])]"
  using json_rpc_body_envelope [of "Some ''follow_api''" "''follow_api''" "''get_followers''"
      "[JStr ''furion'']" True 0]
    json_rpc_body_envelope [of None "[]" "''get_accounts''" "[JArr [JStr ''furion'']]" False 3]
  by simp

text \<open>
  C6 as stated fails where the namespace is present and empty: \<^verbatim>\<open>api=''\<close> does not
  pass \<^verbatim>\<open>if api:\<close>, and the envelope is the one of a call without a namespace.
\<close>

theorem empty_api_is_absent:
  "envelope (json_rpc_body ''get_followers'' [JStr ''furion''] (Some '''') True 0) =
     JObj [(''jsonrpc'', JStr ''2.0''), (''id'', JInt 0), (''method'', JStr ''get_followers''),
           (''params'', JArr [JStr ''furion''])] \<and>
   envelope (json_rpc_body ''get_followers'' [JStr ''furion''] (Some '''') True 0) \<noteq>
     JObj [(''jsonrpc'', JStr ''2.0''), (''id'', JInt 0), (''method'', JStr ''call''),
           (''params'', JArr [JStr '''', JStr ''get_followers'', JArr [JStr ''furion'']])]"
  by (simp add: json_rpc_body_def headers_def)

subsection \<open>A full turn of the rotation\<close>

text \<open>
  C8, as the code has it. For a client built on a list of \<open>N\<close> nodes, in any state that
  the constructor and any number \<open>k\<close> of rotations lead to: \<open>N\<close> more rotations all
  succeed and leave the active URL, and the URL requests go to, what they were before.
\<close>

theorem full_rotation_returns:
  assumes "init ns kw = Some c0" and "rotations k c0 = Some c"
  shows "\<exists>c'. rotations (length ns) c = Some c' \<and> url c' = url c \<and> request c' = request c"
proof -
  from init_active [OF assms(1)] have a0: "active_is_last_drawn c0" and s0: "saved (nodes c0) = ns"
    and ne: "ns \<noteq> []" by simp_all
  have a: "active_is_last_drawn c" using rotations_active [OF a0 assms(2)] .
  from rotations_total [of c0 k] assms(2) s0 ne have "saved (nodes c) = ns" by auto
  with full_turn [OF a] show ?thesis by simp
qed

theorem full_rotation_returns_witness:
  "init [''https://a'', ''https://b'', ''https://c''] (no_kwargs\<lparr>kw_max_failovers := Some 2\<rparr>) =
     Some three_nodes \<and>
   rotations 1 three_nodes =
     Some (three_nodes\<lparr>nodes := Cycle [''https://a'', ''https://b'', ''https://c''] 2,
                       url := ''https://b'', request := ''https://b''\<rparr>) \<and>
   (\<exists>c'. rotations (length [''https://a'', ''https://b'', ''https://c''])
           (three_nodes\<lparr>nodes := Cycle [''https://a'', ''https://b'', ''https://c''] 2,
                        url := ''https://b'', request := ''https://b''\<rparr>) = Some c' \<and>
         url c' = ''https://b'' \<and> request c' = ''https://b'')"
proof -
  have i: "init [''https://a'', ''https://b'', ''https://c'']
             (no_kwargs\<lparr>kw_max_failovers := Some 2\<rparr>) = Some three_nodes"
    by (rule init_three_nodes)
  have r: "rotations 1 three_nodes =
     Some (three_nodes\<lparr>nodes := Cycle [''https://a'', ''https://b'', ''https://c''] 2,
                       url := ''https://b'', request := ''https://b''\<rparr>)"
    by (simp add: next_node_def set_node_def three_nodes_def)
  from full_rotation_returns [OF i r] i r show ?thesis by simp
qed

text \<open>
  C8 as stated, from any state, fails after \<^verbatim>\<open>set_node\<close>, which moves the active URL
  and leaves the cycle where it was. On the client built on the three nodes a, b, c (active:
  a), \<^verbatim>\<open>set_node('https://c')\<close> makes c active; three rotations from there draw b, c
  and a, and end on a, not on c.
\<close>

theorem set_node_breaks_full_turn:
  "url (set_node three_nodes ''https://c'') = ''https://c'' \<and>
   length (saved (nodes (set_node three_nodes ''https://c''))) = 3 \<and>
   rotations 3 (set_node three_nodes ''https://c'') =
     Some \<lparr>return_with_args = False, max_workers = None, max_failovers = 2,
           nodes = Cycle [''https://a'', ''https://b'', ''https://c''] 4,
           url = ''https://a'', request = ''https://a''\<rparr>"
  by code_simp

subsection \<open>The number of attempts\<close>

lemma exec_attempts_aux:
  "nat (max_failovers c - ret_cnt) = n \<Longrightarrow>
   length sent < length (snd (snd (exec w c sent name args api with_args ret_cnt))) \<and>
   length (snd (snd (exec w c sent name args api with_args ret_cnt))) \<le> length sent + n + 1"
proof (induction n arbitrary: c sent api ret_cnt)
  case 0
  then have "ret_cnt \<ge> max_failovers c" by simp
  then show ?case
    by (subst (1 2) exec_attempt) (simp split: verdict.split)
next
  case (Suc n)
  then have lt: "\<not> ret_cnt \<ge> max_failovers c" by simp
  show ?case
  proof (cases "attempt w c (length sent) name args api with_args")
    case (Done r)
    then show ?thesis by (subst (1 2) exec_attempt) simp
  next
    case (Retry names_host x)
    show ?thesis
    proof (cases "log_line w c (length sent) names_host")
      case (Some y)
      with Retry lt show ?thesis by (subst (1 2) exec_attempt) simp
    next
      case None
      show ?thesis
      proof (cases "failover w c (length sent)")
        case (Inl yc)
        with Retry lt None show ?thesis
          by (subst (1 2) exec_attempt) (simp split: prod.split)
      next
        case (Inr c')
        from Suc.prems have "nat (max_failovers c' - (ret_cnt + 1)) = n"
          using failover_max_failovers [OF Inr] by simp
        from Suc.IH [OF this, of "sent @ [(request c, json_rpc_body name args api True 0)]" None]
        show ?thesis using Retry lt None Inr
          by (subst (1 2) exec_attempt) simp
      qed
    qed
  qed
qed

text \<open>
  C9. \<open>exec\<close> is a total function: its recursion was shown to end on the measure
  \<open>max_failovers - _ret_cnt\<close>, which every fail-over lowers by one and which the test
  \<^verbatim>\<open>_ret_cnt >= self.max_failovers\<close> keeps above zero at every retry. So in every world
  (whatever each attempt meets) and from every state a call sends at least one request and
  at most one more than the budget left, and ends with an error raised or a value
  returned.
\<close>

theorem exec_terminates_within_budget:
  "length sent < length (snd (snd (exec w c sent name args api with_args ret_cnt))) \<and>
   length (snd (snd (exec w c sent name args api with_args ret_cnt)))
     \<le> length sent + nat (max_failovers c - ret_cnt) + 1 \<and>
   ((\<exists>x. fst (exec w c sent name args api with_args ret_cnt) = Inl x) \<or>
    (\<exists>v. fst (exec w c sent name args api with_args ret_cnt) = Inr v))"
proof -
  have "(\<exists>x. fst (exec w c sent name args api with_args ret_cnt) = Inl x) \<or>
    (\<exists>v. fst (exec w c sent name args api with_args ret_cnt) = Inr v)"
    by (cases "fst (exec w c sent name args api with_args ret_cnt)") simp_all
  with exec_attempts_aux [OF refl, where c = c and ret_cnt = ret_cnt and sent = sent and w = w
      and name = name and args = args and api = api and with_args = with_args]
  show ?thesis by simp
qed

subsection \<open>A transport that always raises\<close>

lemma next_node_url_in_nodes:
  "next_node c = Some c' \<Longrightarrow> url c' \<in> set (saved (nodes c'))"
  using next_node_active [of c c'] by (simp add: active_url_in_nodes)





subsection \<open>The exception that leaves the call\<close>

text \<open>
  C7. At an attempt that finds the budget used up (\<^verbatim>\<open>_ret_cnt >= self.max_failovers\<close>),
  whatever the transport raises is what the call raises: for every exception \<open>e\<close> that
  the request of that attempt meets, the call ends with \<open>e\<close> itself (\<^verbatim>\<open>raise e\<close>), not
  with a \<^verbatim>\<open>SteemdBadResponse\<close> or an \<^verbatim>\<open>RPCError\<close> and with nothing built around
  \<open>e\<close>; the client is left as it was and no further request is sent.
\<close>

theorem transport_error_reraised:
  assumes "max_failovers c \<le> ret_cnt"
    and "urlopen w (length sent) (request c) (json_rpc_body name args api True 0) = Raises e"
  shows "exec w c sent name args api with_args ret_cnt =
           (Inl (Raised e), c, sent @ [(request c, json_rpc_body name args api True 0)])"
  using assms by (subst exec_attempt) (simp add: attempt_raises)

theorem transport_error_reraised_witness:
  "max_failovers three_nodes \<le> 2 \<and>
   urlopen always_raises (length [(''https://c'', json_rpc_body ''get_config'' [] None True 0)])
     (request three_nodes) (json_rpc_body ''get_config'' [] None True 0) = Raises 1 \<and>
   exec always_raises three_nodes [(''https://c'', json_rpc_body ''get_config'' [] None True 0)]
     ''get_config'' [] None None 2 =
     (Inl (Raised 1), three_nodes,
      [(''https://c'', json_rpc_body ''get_config'' [] None True 0),
       (''https://a'', json_rpc_body ''get_config'' [] None True 0)])"
proof -
  have b: "max_failovers three_nodes \<le> 2" by (simp add: three_nodes_def)
  have u: "urlopen always_raises
             (length [(''https://c'', json_rpc_body ''get_config'' [] None True 0)])
             (request three_nodes) (json_rpc_body ''get_config'' [] None True 0) = Raises 1"
    by (simp add: always_raises_def)
  from transport_error_reraised [OF b u, of None] b u
  show ?thesis by (simp add: three_nodes_def)
qed

text \<open>
  Over a whole call: when the nodes' URLs parse and the stack has room, a call whose last
  request met an exception \<open>e\<close> of the transport ends by raising \<open>e\<close>.
\<close>

lemma last_exception_leaves_call:
  assumes parses: "\<And>u. u \<in> set ns \<Longrightarrow> \<not> urlparse_rejects w u"
    and room: "\<And>i. overflow w i = None"
  shows "saved (nodes c) = ns \<Longrightarrow> ns \<noteq> [] \<Longrightarrow> url c \<in> set ns \<Longrightarrow>
         nat (max_failovers c - ret_cnt) = n \<Longrightarrow>
         exec w c sent name args api with_args ret_cnt = (res, c', sent') \<Longrightarrow>
         urlopen w (length sent' - 1) (fst (last sent')) (snd (last sent')) = Raises e \<Longrightarrow>
         res = Inl (Raised e)"
proof (induction n arbitrary: c sent api ret_cnt)
  case 0
  then have ge: "ret_cnt \<ge> max_failovers c" by simp
  show ?case
  proof (cases "attempt w c (length sent) name args api with_args")
    case (Done r)
    with "0.prems"(5) have "sent' = sent @ [(request c, json_rpc_body name args api True 0)]"
      by (subst (asm) exec_attempt) auto
    with "0.prems"(6) have "attempt w c (length sent) name args api with_args = Retry True (Raised e)"
      by (simp add: attempt_raises)
    with Done show ?thesis by simp
  next
    case (Retry names_host y)
    with "0.prems"(5) ge have "sent' = sent @ [(request c, json_rpc_body name args api True 0)]"
      and "res = Inl y"
      by (subst (asm) exec_attempt, auto)+
    with "0.prems"(6) Retry show ?thesis
      by (simp add: attempt_raises)
  qed
next
  case (Suc n)
  let ?sent = "sent @ [(request c, json_rpc_body name args api True 0)]"
  from Suc.prems(4) have lt: "\<not> ret_cnt \<ge> max_failovers c" by simp
  show ?case
  proof (cases "attempt w c (length sent) name args api with_args")
    case (Done r)
    with Suc.prems(5) have "sent' = ?sent"
      by (subst (asm) exec_attempt) auto
    with Suc.prems(6) have "attempt w c (length sent) name args api with_args = Retry True (Raised e)"
      by (simp add: attempt_raises)
    with Done show ?thesis by simp
  next
    case (Retry names_host y)
    have ne: "saved (nodes c) \<noteq> []" using Suc.prems(1,2) by simp
    from next_node_total [OF ne] obtain c1 where c1: "next_node c = Some c1" ..
    have log: "log_line w c (length sent) names_host = None"
      using log_line_room [OF room] parses [OF Suc.prems(3)] by simp
    have fo: "failover w c (length sent) = Inr c1"
      using failover_room [OF room, of c] c1 by simp
    have s1: "saved (nodes c1) = ns" using next_node_saved [OF c1] Suc.prems(1) by simp
    have u1: "url c1 \<in> set ns" using next_node_url_in_nodes [OF c1] s1 by simp
    have n: "nat (max_failovers c1 - (ret_cnt + 1)) = n"
      using Suc.prems(4) next_node_max_failovers [OF c1] by simp
    from Suc.prems(5) Retry lt log fo
    have "exec w c1 ?sent name args None with_args (ret_cnt + 1) = (res, c', sent')"
      by (subst (asm) exec_attempt) simp
    from Suc.IH [OF s1 Suc.prems(2) u1 n this Suc.prems(6)] show ?thesis .
  qed
qed

subsection \<open>Bodies that end the call at once\<close>

text \<open>
  C5. Let the request of some attempt return a response whose status is the object of the
  literal 200 and whose body decodes to a value with no \<open>error\<close> in it and no \<open>result\<close>
  in it (neither \<^verbatim>\<open>'error' in response_json\<close> nor \<^verbatim>\<open>'result' in response_json\<close>
  is true). Then, whatever the retry count and the budget, the call raises at that attempt:
  the client is left as it was (no rotation) and the request of that attempt is the only
  one sent (no retry). For a dict, a list or a string the error is the
  \<^verbatim>\<open>SteemdBadResponse\<close> that says the result is missing; for a body that admits no
  \<^verbatim>\<open>in\<close> (a number, a boolean, null) it is the \<^verbatim>\<open>TypeError\<close> of the first test.
\<close>

theorem missing_result_fatal:
  fixes w :: "'e world"
  assumes "urlopen w (length sent) (request c) (json_rpc_body name args api True 0) = Returns r"
    and "status r = literal_200"
    and "json_loads w (data r) = Some j"
    and "py_in ''error'' j \<noteq> (Inr True :: 'e error + bool)"
    and "py_in ''result'' j \<noteq> (Inr True :: 'e error + bool)"
  shows "exec w c sent name args api with_args ret_cnt =
           (Inl (case py_in ''error'' j :: 'e error + bool of
                   Inl t \<Rightarrow> TypeError
                 | Inr b \<Rightarrow> SteemdBadResponse_message missing_result),
            c, sent @ [(request c, json_rpc_body name args api True 0)])"
proof -
  have "attempt w c (length sent) name args api with_args =
          Done (Inl (case py_in ''error'' j :: 'e error + bool of
                   Inl t \<Rightarrow> TypeError
                 | Inr b \<Rightarrow> SteemdBadResponse_message missing_result))"
    using assms by (cases j) (simp_all add: attempt_def is_not_200_def)
  then show ?thesis by (subst exec_attempt) simp
qed

theorem missing_result_fatal_witness:
  "urlopen (answers (Shared 200) without_result) 0 (request three_nodes)
     (json_rpc_body ''get_config'' [] None True 0) =
     Returns \<lparr>status = Shared 200, data = without_result\<rparr> \<and>
   status \<lparr>status = Shared 200, data = without_result\<rparr> = literal_200 \<and>
   json_loads (answers (Shared 200) without_result)
     (data \<lparr>status = Shared 200, data = without_result\<rparr>) = Some (JObj [(''id'', JInt 0)]) \<and>
   py_in ''error'' (JObj [(''id'', JInt 0)]) \<noteq> (Inr True :: unit error + bool) \<and>
   py_in ''result'' (JObj [(''id'', JInt 0)]) \<noteq> (Inr True :: unit error + bool) \<and>
   exec (answers (Shared 200) without_result) three_nodes [] ''get_config'' [] None None 0 =
     (Inl (SteemdBadResponse_message missing_result), three_nodes,
      [(''https://a'', json_rpc_body ''get_config'' [] None True 0)])"
proof -
  let ?w = "answers (Shared 200) without_result"
  let ?r = "\<lparr>status = Shared 200, data = without_result\<rparr>"
  have 1: "urlopen ?w (length ([] :: (string \<times> body) list)) (request three_nodes)
             (json_rpc_body ''get_config'' [] None True 0) = Returns ?r"
    by (simp add: answers_def)
  have 2: "status ?r = literal_200" by (simp add: literal_200_def)
  have 3: "json_loads ?w (data ?r) = Some (JObj [(''id'', JInt 0)])"
    by (simp add: answers_def loads_def with_result_def without_result_def)
  have 4: "py_in ''error'' (JObj [(''id'', JInt 0)]) \<noteq> (Inr True :: unit error + bool)"
    by simp
  have 5: "py_in ''result'' (JObj [(''id'', JInt 0)]) \<noteq> (Inr True :: unit error + bool)"
    by simp
  from missing_result_fatal [OF 1 2 3 4 5, of None 0] 1 2 3 4 5
  show ?thesis by (simp add: three_nodes_def)
qed

text \<open>
  C10. Let the request of some attempt return a response whose status is the object of
  the literal 200 and whose body decodes to a dict with an \<open>error\<close> entry, where the
  entry is a dict with neither a \<open>detail\<close> nor a \<open>message\<close> key, or is no dict at all.
  Then, whatever the retry count and the budget, the call raises at that attempt, with the
  client left as it was and none but that request sent: a \<^verbatim>\<open>KeyError\<close> for the
  missing \<open>message\<close> in the first case, an \<^verbatim>\<open>AttributeError\<close> in the second. Neither
  is the transport's exception, a \<^verbatim>\<open>SteemdBadResponse\<close> or an \<^verbatim>\<open>RPCError\<close>.
\<close>

theorem malformed_error_entry:
  fixes w :: "'e world"
  assumes "urlopen w (length sent) (request c) (json_rpc_body name args api True 0) = Returns r"
    and "status r = literal_200"
    and "json_loads w (data r) = Some (JObj kvs)"
    and "map_of kvs ''error'' = Some v"
    and "case v of JObj evs \<Rightarrow> map_of evs ''detail'' = None \<and> map_of evs ''message'' = None
         | _ \<Rightarrow> True"
  shows "exec w c sent name args api with_args ret_cnt =
           (Inl (case v of JObj evs \<Rightarrow> KeyError ''message'' | _ \<Rightarrow> AttributeError),
            c, sent @ [(request c, json_rpc_body name args api True 0)])"
proof -
  have "attempt w c (length sent) name args api with_args =
          Done (Inl (case v of JObj evs \<Rightarrow> KeyError ''message'' | _ \<Rightarrow> AttributeError))"
    using assms by (cases v) (simp_all add: attempt_def is_not_200_def)
  then show ?thesis by (subst exec_attempt) simp
qed

theorem malformed_error_entry_witness:
  "urlopen (answers (Shared 200) error_without_message) 0 (request three_nodes)
     (json_rpc_body ''get_config'' [] None True 0) =
     Returns \<lparr>status = Shared 200, data = error_without_message\<rparr> \<and>
   status \<lparr>status = Shared 200, data = error_without_message\<rparr> = literal_200 \<and>
   json_loads (answers (Shared 200) error_without_message)
     (data \<lparr>status = Shared 200, data = error_without_message\<rparr>) =
     Some (JObj [(''id'', JInt 0), (''error'', JObj [(''code'', JInt 7)])]) \<and>
   map_of [(''id'', JInt 0), (''error'', JObj [(''code'', JInt 7)])] ''error'' =
     Some (JObj [(''code'', JInt 7)]) \<and>
   map_of [(''code'', JInt 7)] ''detail'' = None \<and>
   map_of [(''code'', JInt 7)] ''message'' = None \<and>
   exec (answers (Shared 200) error_without_message) three_nodes [] ''get_config'' [] None None 0 =
     (Inl (KeyError ''message''), three_nodes,
      [(''https://a'', json_rpc_body ''get_config'' [] None True 0)])"
proof -
  let ?w = "answers (Shared 200) error_without_message"
  let ?r = "\<lparr>status = Shared 200, data = error_without_message\<rparr>"
  have 1: "urlopen ?w (length ([] :: (string \<times> body) list)) (request three_nodes)
             (json_rpc_body ''get_config'' [] None True 0) = Returns ?r"
    by (simp add: answers_def)
  have 2: "status ?r = literal_200" by (simp add: literal_200_def)
  have 3: "json_loads ?w (data ?r) =
             Some (JObj [(''id'', JInt 0), (''error'', JObj [(''code'', JInt 7)])])"
    by (simp add: answers_def loads_def with_result_def without_result_def
        error_without_message_def)
  have 4: "map_of [(''id'', JInt 0), (''error'', JObj [(''code'', JInt 7)])] ''error'' =
             Some (JObj [(''code'', JInt 7)])"
    by simp
  have 5: "case JObj [(''code'', JInt 7)] of
             JObj evs \<Rightarrow> map_of evs ''detail'' = None \<and> map_of evs ''message'' = None
           | _ \<Rightarrow> True"
    by simp
  from malformed_error_entry [OF 1 2 3 4 5, of None 0] 1 2 3 4 5
  show ?thesis by (simp add: three_nodes_def)
qed

subsection \<open>The status of the response\<close>




subsection \<open>Where the code leaves its documented behaviour\<close>

text \<open>
  C1 does not hold of the code. A call with \<^verbatim>\<open>api='follow_api'\<close> whose first request
  meets a connection error is retried by \<^verbatim>\<open>failover\<close> without the namespace: the first
  request carries the method \<open>call\<close> with the params \<open>[follow_api, get_followers,
  [furion]]\<close>, the retry carries the method \<open>get_followers\<close> with the params
  \<open>[furion]\<close>.
\<close>

theorem failover_drops_api:
  "map_option
     (\<lambda>c. exec first_fails c [] ''get_followers'' [JStr ''furion''] (Some ''follow_api'') None 0)
     (init [''https://a'', ''https://b''] no_kwargs) =
   Some (Inr (Plain (JInt 1)),
     \<lparr>return_with_args = False, max_workers = None, max_failovers = 10,
      nodes = Cycle [''https://a'', ''https://b''] 2, url = ''https://b'',
      request = ''https://b''\<rparr>,
     [(''https://a'',
       Utf8_json (JObj [(''jsonrpc'', JStr ''2.0''), (''id'', JInt 0),
         (''method'', JStr ''call''),
         (''params'', JArr [JStr ''follow_api'', JStr ''get_followers'', JArr [JStr ''furion'']])])),
      (''https://b'',
       Utf8_json (JObj [(''jsonrpc'', JStr ''2.0''), (''id'', JInt 0),
         (''method'', JStr ''get_followers''),
         (''params'', JArr [JStr ''furion''])]))])"
  by code_simp

text \<open>
  C2 does not hold of the code. On a client built with \<^verbatim>\<open>return_with_args=True\<close>, a
  call that passes no \<^verbatim>\<open>return_with_args\<close> returns the result alone, not the pair of
  the result and the arguments: \<^verbatim>\<open>exec\<close> never reads the field the constructor set.
\<close>

theorem client_return_with_args_unused:
  "map_option
     (\<lambda>c. exec (answers (Shared 200) with_result) c [] ''get_accounts'' [JArr [JStr ''furion'']]
            None None 0)
     (init [''https://a''] (no_kwargs\<lparr>kw_return_with_args := Some True\<rparr>)) =
   Some (Inr (Plain (JInt 1)),
     \<lparr>return_with_args = True, max_workers = None, max_failovers = 10,
      nodes = Cycle [''https://a''] 1, url = ''https://a'', request = ''https://a''\<rparr>,
     [(''https://a'',
       Utf8_json (JObj [(''jsonrpc'', JStr ''2.0''), (''id'', JInt 0),
         (''method'', JStr ''get_accounts''),
         (''params'', JArr [JArr [JStr ''furion'']])]))])"
  by code_simp

text \<open>
  The same for a batch of three parameter sets on that client, run one call at a time:
  each item comes back as the result alone.
\<close>

lemma batch_items_unpaired:
  "map_option
     (\<lambda>c. fst (exec_multi_with_futures (answers (Shared 200) with_result) c [] ''get_account''
                  [JStr ''alice'', JStr ''bob'', JArr [JStr ''carol'', JInt 1]] None None))
     (init [''https://a''] (no_kwargs\<lparr>kw_return_with_args := Some True\<rparr>)) =
   Some [Inr (Plain (JInt 1)), Inr (Plain (JInt 1)), Inr (Plain (JInt 1))]"
  by code_simp

text \<open>
  A batch ends at the first item that raises: with a budget of no retry and a transport
  that raises on every request, only the exception of the first call is handed out.
\<close>

lemma batch_ends_at_first_error:
  "fst (exec_multi_with_futures always_raises (three_nodes\<lparr>max_failovers := 0\<rparr>) []
          ''get_account'' [JStr ''alice'', JStr ''bob''] None None) =
   [Inl (Raised 0)]"
  by code_simp

text \<open>
  An integer object that equals 200 without being the object of the literal (no status
  of the pool is one) would not pass the test.
\<close>

lemma is_not_200_identity:
  "is_not_200 (Own 200) \<and> int_value (Own 200) = 200"
  by (simp add: is_not_200_def literal_200_def)

end
